theory Spec2Isabelle
  imports Main "HOL-Library.Word"
begin

unbundle bit_operations_syntax

section \<open>The OSR USB-FX2 driver (my\_usb\_driver.c)\<close>

text \<open>
  A shallow embedding of the driver's file operations, power callbacks, interrupt
  handler and sysfs attribute handlers. C integers keep their width where it shows:
  \<open>unsigned char\<close> is an 8-bit word, \<open>unsigned int\<close> and the \<open>atomic_t\<close> counter a
  32-bit word, \<open>size_t\<close> and \<open>unsigned long\<close> a 64-bit word (LP64). A C \<open>int\<close> that
  only carries a status or a byte count is an \<open>int\<close>; where it is stored into a wider
  or unsigned object the conversion is written out.
\<close>

type_synonym u8 = "8 word"
type_synonym u32 = "32 word"
type_synonym size_t = "64 word"

subsection \<open>Constants of the driver and of the kernel headers it includes\<close>

definition READ_7SEG :: u8 where "READ_7SEG = 0xD4"
definition SET_7SEG :: u8 where "SET_7SEG = 0xDB"
definition READ_LEDS :: u8 where "READ_LEDS = 0xD7"
definition SET_LEDS :: u8 where "SET_LEDS = 0xD8"

text \<open>\<open>linux/errno.h\<close> and \<open>linux/fcntl.h\<close>: the values the driver negates and compares.\<close>

definition ENOMEM :: int where "ENOMEM = 12"
definition EFAULT :: int where "EFAULT = 14"
definition EBUSY :: int where "EBUSY = 16"
definition ENODEV :: int where "ENODEV = 19"
definition EHOSTUNREACH :: int where "EHOSTUNREACH = 113"
definition ERESTARTSYS :: int where "ERESTARTSYS = 512"

definition O_RDONLY :: u32 where "O_RDONLY = 0"
definition O_WRONLY :: u32 where "O_WRONLY = 1"
definition O_RDWR :: u32 where "O_RDWR = 2"
definition O_ACCMODE :: u32 where "O_ACCMODE = 3"

subsection \<open>What the driver asks of the USB core\<close>

text \<open>
  Every request the driver hands to the USB core, and every wake-up and error message,
  is appended to a trace, in program order. \<open>WakeUp\<close> carries the \<open>switches\<close> byte that
  is in the device context at the moment \<open>wake_up\<close> runs: it is what a woken observer
  reads.
\<close>

datatype usb_event =
    ClearHalt u8
  | BulkMsgIn u8 int int
  | SubmitBulkOut u8 u32
  | SubmitInt
  | KillInt
  | ControlIn u8
  | ControlOut u8 u8
  | WakeUp u8
  | DevErr int

subsection \<open>The device context\<close>

text \<open>
  \<open>struct osrfx2\<close>, without its pointers (device, interface, buffers, URBs), the wait
  queue and the mutex. The second record adds what lies outside the struct: the two
  display registers of the board, whether the interrupt URB is in flight, whether
  \<open>osrfx2_delete\<close> has run, and the trace.
\<close>

record osrfx2 =
  int_in_size :: size_t
  bulk_in_size :: size_t
  bulk_out_size :: size_t
  int_in_endpointAddr :: u8
  bulk_in_endpointAddr :: u8
  bulk_out_endpointAddr :: u8
  kref :: u32
  switches :: u8
  segments :: u8
  leds :: u8
  bulk_write_available :: u32
  bulk_read_available :: u32
  pending_data :: size_t
  suspended :: int
  sem :: u32

record system = osrfx2 +
  board_leds :: u8
  board_segments :: u8
  int_urb_active :: bool
  deleted :: bool
  trace :: "usb_event list"

text \<open>\<open>struct file\<close>: the open flags, and whether \<open>private_data\<close> points to the context.\<close>

record struct_file =
  f_flags :: u32
  private_data :: bool

text \<open>
  The context \<open>osrfx2_probe\<close> leaves for the OSR FX2 board: the struct zeroed, reference
  count 1, semaphore 1, both pipes available, the endpoints of the board (interrupt-in
  1, bulk-out 6, bulk-in 8), \<open>int_in_size\<close> the size of \<open>switches\<close>, and the interrupt
  URB submitted.
\<close>

definition probed :: system where
  "probed =
     \<lparr>int_in_size = 1, bulk_in_size = 512, bulk_out_size = 512,
      int_in_endpointAddr = 0x81, bulk_in_endpointAddr = 0x88, bulk_out_endpointAddr = 0x06,
      kref = 1, switches = 0, segments = 0, leds = 0,
      bulk_write_available = 1, bulk_read_available = 1,
      pending_data = 0, suspended = 0, sem = 1,
      board_leds = 0, board_segments = 0, int_urb_active = True, deleted = False,
      trace = []\<rparr>"

definition emit :: "usb_event \<Rightarrow> system \<Rightarrow> system" where
  "emit e s = s\<lparr>trace := trace s @ [e]\<rparr>"

definition dev_err :: "int \<Rightarrow> system \<Rightarrow> system" where
  "dev_err status s = emit (DevErr status) s"

subsection \<open>Kernel services, as far as the driver observes them\<close>

text \<open>
  The answer of the USB core or of the memory manager to a call is a parameter of the
  model (\<open>status\<close> below, and the \<open>*_env\<close> records of the file operations): the driver
  cannot choose it.
\<close>

text \<open>
  \<open>usb_control_msg\<close> with a one-byte buffer: a negative result is an errno and nothing
  was transferred; otherwise the result is the number of bytes transferred. The board
  keeps the byte of a \<open>SET_LEDS\<close> or \<open>SET_7SEG\<close> request and answers \<open>READ_LEDS\<close> or
  \<open>READ_7SEG\<close> with it.
\<close>

definition board_register :: "u8 \<Rightarrow> system \<Rightarrow> u8" where
  "board_register request s =
     (if request = READ_LEDS then board_leds s
      else if request = READ_7SEG then board_segments s
      else 0)"

definition board_store :: "u8 \<Rightarrow> u8 \<Rightarrow> system \<Rightarrow> system" where
  "board_store request data s =
     (if request = SET_LEDS then s\<lparr>board_leds := data\<rparr>
      else if request = SET_7SEG then s\<lparr>board_segments := data\<rparr>
      else s)"

definition usb_control_msg_in ::
  "int \<Rightarrow> u8 \<Rightarrow> (u8 \<Rightarrow> system \<Rightarrow> system) \<Rightarrow> system \<Rightarrow> int \<times> system" where
  "usb_control_msg_in status request store s =
     (let s1 = emit (ControlIn request) s
      in if 1 \<le> status then (status, store (board_register request s1) s1)
         else (status, s1))"

definition usb_control_msg_out :: "int \<Rightarrow> u8 \<Rightarrow> u8 \<Rightarrow> system \<Rightarrow> int \<times> system" where
  "usb_control_msg_out status request data s =
     (let s1 = emit (ControlOut request data) s
      in if 1 \<le> status then (status, board_store request data s1)
         else (status, s1))"


definition usb_bulk_msg :: "int \<Rightarrow> u8 \<Rightarrow> int \<Rightarrow> int \<Rightarrow> system \<Rightarrow> int \<times> system" where
  "usb_bulk_msg status ep len timeout s = (status, emit (BulkMsgIn ep len timeout) s)"

text \<open>
  \<open>usb_fill_bulk_urb\<close> takes the length as \<open>int buffer_length\<close> and stores it in the
  32-bit field \<open>transfer_buffer_length\<close> of the URB: of a \<open>size_t\<close> the low 32 bits
  remain. \<open>usb_submit_urb\<close> then submits the URB with that length.
\<close>

definition usb_fill_bulk_urb :: "size_t \<Rightarrow> u32" where
  "usb_fill_bulk_urb count =
     (let buffer_length = sint (ucast count :: 32 word)
      in word_of_int buffer_length)"

definition usb_submit_bulk_urb :: "int \<Rightarrow> u8 \<Rightarrow> u32 \<Rightarrow> system \<Rightarrow> int \<times> system" where
  "usb_submit_bulk_urb status ep len s = (status, emit (SubmitBulkOut ep len) s)"

text \<open>\<open>usb_submit_urb\<close> and \<open>usb_kill_urb\<close> on the interrupt URB.\<close>

definition usb_submit_int_urb :: "int \<Rightarrow> system \<Rightarrow> int \<times> system" where
  "usb_submit_int_urb status s =
     (let s1 = emit SubmitInt s
      in (status, if status = 0 then s1\<lparr>int_urb_active := True\<rparr> else s1))"

definition usb_kill_int_urb :: "system \<Rightarrow> system" where
  "usb_kill_int_urb s = (emit KillInt s)\<lparr>int_urb_active := False\<rparr>"

definition wake_up :: "system \<Rightarrow> system" where
  "wake_up s = emit (WakeUp (switches s)) s"




text \<open>
  \<open>simple_strtoul(buf, &end, 10)\<close> of the kernel: the decimal digits at the start of the
  string, accumulated in an \<open>unsigned long\<close> (wrapping), and how far \<open>end\<close> is from
  \<open>buf\<close>. No sign, no leading space.
\<close>

definition isdigit :: "char \<Rightarrow> bool" where
  "isdigit c = (48 \<le> (of_char c :: nat) \<and> (of_char c :: nat) \<le> 57)"

fun parse_digits :: "string \<Rightarrow> 64 word \<Rightarrow> nat \<Rightarrow> 64 word \<times> nat" where
  "parse_digits [] result n = (result, n)"
| "parse_digits (c # cp) result n =
     (if isdigit c
      then parse_digits cp (result * 10 + word_of_nat (of_char c - 48)) (Suc n)
      else (result, n))"

definition simple_strtoul :: "string \<Rightarrow> 64 word \<times> nat" where
  "simple_strtoul buf = parse_digits buf 0 0"

subsection \<open>Pointers that may be null\<close>

text \<open>
  A run of a function either returns or stops at the dereference of a null pointer.
  \<open>usb_alloc_urb\<close> returns a null pointer when the allocation fails.
\<close>

datatype 'a outcome = Returns 'a | NullDeref

record urb =
  transfer_dma :: "64 word"

definition usb_alloc_urb :: "bool \<Rightarrow> urb option" where
  "usb_alloc_urb ok = (if ok then Some \<lparr>transfer_dma = 0\<rparr> else None)"

text \<open>The expression \<open>urb->transfer_dma\<close>.\<close>

definition urb_transfer_dma :: "urb option \<Rightarrow> (64 word) outcome" where
  "urb_transfer_dma p = (case p of None \<Rightarrow> NullDeref | Some u \<Rightarrow> Returns (transfer_dma u))"

definition and_then :: "'a outcome \<Rightarrow> ('a \<Rightarrow> 'b outcome) \<Rightarrow> 'b outcome" where
  "and_then x f = (case x of NullDeref \<Rightarrow> NullDeref | Returns v \<Rightarrow> f v)"

subsection \<open>Attribute translator\<close>

text \<open>
  \<open>(x & m) ? "1" : "0"\<close>, one conversion of the \<open>sprintf\<close> calls of the three
  \<open>get\<close> handlers.
\<close>

definition bit_str :: "u8 \<Rightarrow> u8 \<Rightarrow> string" where
  "bit_str x m = (if x AND m \<noteq> 0 then ''1'' else ''0'')"

text \<open>The format of \<open>get_switches\<close>: left switch to right switch, bit 7 first.\<close>

definition switches_format :: "u8 \<Rightarrow> string" where
  "switches_format x =
     bit_str x 0x80 @ bit_str x 0x40 @ bit_str x 0x20 @ bit_str x 0x10 @
     bit_str x 0x08 @ bit_str x 0x04 @ bit_str x 0x02 @ bit_str x 0x01"

text \<open>The format of \<open>get_bargraph\<close>.\<close>

definition bargraph_format :: "u8 \<Rightarrow> string" where
  "bargraph_format x =
     bit_str x 0x10 @ bit_str x 0x08 @ bit_str x 0x04 @ bit_str x 0x02 @
     bit_str x 0x01 @ bit_str x 0x80 @ bit_str x 0x40 @ bit_str x 0x20"

text \<open>The format of \<open>get_7segment\<close>.\<close>

definition segment_format :: "u8 \<Rightarrow> string" where
  "segment_format x =
     bit_str x 0x08 @ bit_str x 0x20 @ bit_str x 0x40 @ bit_str x 0x10 @
     bit_str x 0x80 @ bit_str x 0x04 @ bit_str x 0x02 @ bit_str x 0x01"

text \<open>
  The eight \<open>fx2dev->leds |= ...\<close> statements of \<open>set_bargraph\<close>, applied to the byte
  \<open>l\<close> that \<open>leds\<close> holds before them. \<open>value\<close> is an \<open>unsigned int\<close>; the assignment to
  the \<open>unsigned char\<close> keeps the low byte.
\<close>

definition bargraph_remap :: "u8 \<Rightarrow> u32 \<Rightarrow> u8" where
  "bargraph_remap l v =
     l OR ucast (drop_bit 3 v AND 0x01)
       OR ucast (drop_bit 3 v AND 0x02)
       OR ucast (drop_bit 3 v AND 0x04)
       OR ucast (drop_bit 3 v AND 0x08)
       OR ucast (drop_bit 3 v AND 0x10)
       OR ucast (push_bit 5 v AND 0x20)
       OR ucast (push_bit 5 v AND 0x40)
       OR ucast (push_bit 5 v AND 0x80)"

text \<open>The eight \<open>fx2dev->segments |= ...\<close> statements of \<open>set_7segment\<close>.\<close>

definition segment_remap :: "u8 \<Rightarrow> u32 \<Rightarrow> u8" where
  "segment_remap l v =
     l OR ucast (v AND 0x01)
       OR ucast (v AND 0x02)
       OR ucast (v AND 0x04)
       OR ucast (drop_bit 4 v AND 0x08)
       OR ucast (v AND 0x10)
       OR ucast (drop_bit 1 v AND 0x20)
       OR ucast (push_bit 1 v AND 0x40)
       OR ucast (push_bit 4 v AND 0x80)"

text \<open>
  The number a string of \<open>0\<close> and \<open>1\<close> characters denotes, most significant bit first:
  how a reader of the attribute file turns the text back into a value. \<open>bargraph_value\<close>
  and \<open>segment_value\<close> are the byte a reader of \<open>get_bargraph\<close> and \<open>get_7segment\<close> sees
  for a register byte of the board.
\<close>

definition bin_value :: "string \<Rightarrow> nat" where
  "bin_value cs = foldl (\<lambda>acc c. 2 * acc + (if c = CHR ''1'' then 1 else 0)) 0 cs"

definition bargraph_value :: "u8 \<Rightarrow> u8" where
  "bargraph_value p = word_of_nat (bin_value (bargraph_format p))"

definition segment_value :: "u8 \<Rightarrow> u8" where
  "segment_value p = word_of_nat (bin_value (segment_format p))"

subsection \<open>The attribute handlers\<close>

text \<open>
  A \<open>get\<close> handler returns its result and the text it wrote to \<open>buf\<close> (empty when it
  wrote nothing). \<open>sprintf\<close> returns the length of the text.
\<close>

definition get_switches :: "system \<Rightarrow> (int \<times> string) \<times> system" where
  "get_switches s =
     (let buf = switches_format (switches s);
          retval = int (length buf)
      in ((retval, buf), s))"

definition get_bargraph :: "int \<Rightarrow> system \<Rightarrow> (int \<times> string) \<times> system" where
  "get_bargraph status s =
     (if suspended s \<noteq> 0 then ((int (length ''S ''), ''S ''), s)
      else
        let s0 = s\<lparr>leds := 0\<rparr>;
            (retval, s1) = usb_control_msg_in status READ_LEDS (\<lambda>b t. t\<lparr>leds := b\<rparr>) s0;
            buf = bargraph_format (leds s1);
            retval = int (length buf)
        in ((retval, buf), s1))"

definition set_bargraph :: "int \<Rightarrow> string \<Rightarrow> size_t \<Rightarrow> system \<Rightarrow> int \<times> system" where
  "set_bargraph status buf count s =
     (let s0 = s\<lparr>leds := 0\<rparr>;
          (parsed, end) = simple_strtoul buf;
          value = (ucast (parsed AND 0xFF) :: u32);
          value = (if end = 0 then 0 else value);
          s1 = (if value > 255 then s0\<lparr>leds := 0\<rparr>
                else s0\<lparr>leds := bargraph_remap (leds s0) value\<rparr>);
          (retval, s2) = usb_control_msg_out status SET_LEDS (leds s1) s1;
          s3 = (if retval < 0 then dev_err retval s2 else s2)
      in (sint count, s3))"

definition get_7segment :: "int \<Rightarrow> system \<Rightarrow> (int \<times> string) \<times> system" where
  "get_7segment status s =
     (if suspended s \<noteq> 0 then ((int (length ''S ''), ''S ''), s)
      else
        let s0 = s\<lparr>segments := 0\<rparr>;
            (retval, s1) = usb_control_msg_in status READ_7SEG (\<lambda>b t. t\<lparr>segments := b\<rparr>) s0
        in if retval < 0 then ((retval, []), dev_err retval s1)
           else
             let buf = segment_format (segments s1);
                 retval = int (length buf)
             in ((retval, buf), s1))"

definition set_7segment :: "int \<Rightarrow> string \<Rightarrow> size_t \<Rightarrow> system \<Rightarrow> int \<times> system" where
  "set_7segment status buf count s =
     (let s0 = s\<lparr>segments := 0\<rparr>;
          (parsed, end) = simple_strtoul buf;
          value = (ucast (parsed AND 0xFF) :: u32);
          value = (if end = 0 then 0 else value);
          s1 = (if value > 255 then s0\<lparr>segments := 0\<rparr>
                else s0\<lparr>segments := segment_remap (segments s0) value\<rparr>);
          (retval, s2) = usb_control_msg_out status SET_7SEG (segments s1) s1;
          s3 = (if retval < 0 then dev_err retval s2 else s2)
      in (sint count, s3))"

subsection \<open>Open and release\<close>








subsection \<open>Sessions\<close>


definition holds_write :: "struct_file \<Rightarrow> bool" where
  "holds_write filp =
     (f_flags filp AND O_ACCMODE = O_WRONLY \<or> f_flags filp AND O_ACCMODE = O_RDWR)"

definition holds_read :: "struct_file \<Rightarrow> bool" where
  "holds_read filp =
     (f_flags filp AND O_ACCMODE = O_RDONLY \<or> f_flags filp AND O_ACCMODE = O_RDWR)"



subsection \<open>Bulk read and write\<close>

text \<open>
  What \<open>osrfx2_read\<close> is answered: the result of \<open>usb_bulk_msg\<close>, the length it stores
  in \<open>bytes_read\<close>, and the number of bytes \<open>copy_to_user\<close> could not copy.
\<close>

record read_env =
  bulk_msg_status :: int
  bytes_read :: int
  copy_to_user_left :: size_t

text \<open>
  The length \<open>min(fx2dev->bulk_in_size, count)\<close> is a \<open>size_t\<close>; \<open>usb_bulk_msg\<close> takes
  an \<open>int\<close>. \<open>pending_data -= retval\<close> converts the \<open>int\<close> to \<open>size_t\<close>.
\<close>

definition osrfx2_read :: "read_env \<Rightarrow> size_t \<Rightarrow> system \<Rightarrow> int \<times> system" where
  "osrfx2_read env count s =
     (let len = sint (ucast (min (bulk_in_size s) count) :: 32 word);
          (retval, s1) = usb_bulk_msg (bulk_msg_status env) (bulk_in_endpointAddr s) len 10000 s
      in if retval = 0 then
           let retval = (if copy_to_user_left env \<noteq> 0 then - EFAULT else bytes_read env);
               s2 = s1\<lparr>pending_data := pending_data s1 - word_of_int retval\<rparr>
           in (retval, s2)
         else (retval, s1))"

text \<open>
  What \<open>osrfx2_write\<close> is answered: whether \<open>usb_alloc_urb\<close> and \<open>usb_alloc_coherent\<close>
  succeed, the number of bytes \<open>copy_from_user\<close> could not copy, and the result of
  \<open>usb_submit_urb\<close>.
\<close>

record write_env =
  alloc_urb_ok :: bool
  alloc_coherent_ok :: bool
  copy_from_user_left :: size_t
  submit_status :: int

text \<open>
  Each error branch evaluates \<open>urb->transfer_dma\<close> as an argument of
  \<open>usb_free_coherent\<close> before it returns. \<open>usb_free_coherent\<close> and \<open>usb_free_urb\<close> accept
  a null pointer and change nothing this model keeps.
\<close>

definition osrfx2_write :: "write_env \<Rightarrow> size_t \<Rightarrow> system \<Rightarrow> (int \<times> system) outcome" where
  "osrfx2_write env count s =
     (if count = 0 then Returns (sint count, s)
      else
        let urb = usb_alloc_urb (alloc_urb_ok env)
        in if urb = None then
             and_then (urb_transfer_dma urb) (\<lambda>dma. Returns (- ENOMEM, s))
           else if \<not> alloc_coherent_ok env then
             and_then (urb_transfer_dma urb) (\<lambda>dma. Returns (- ENOMEM, s))
           else if copy_from_user_left env \<noteq> 0 then
             and_then (urb_transfer_dma urb) (\<lambda>dma. Returns (- EFAULT, s))
           else
             let transfer_buffer_length = usb_fill_bulk_urb count;
                 (retval, s1) =
                   usb_submit_bulk_urb (submit_status env) (bulk_out_endpointAddr s)
                     transfer_buffer_length s
             in if retval \<noteq> 0 then
                  and_then (urb_transfer_dma urb) (\<lambda>dma. Returns (retval, dev_err retval s1))
                else Returns (sint count, s1\<lparr>pending_data := pending_data s1 + count\<rparr>))"

subsection \<open>The interrupt listener\<close>

text \<open>
  \<open>interrupt_handler\<close> with the status of the URB, the byte in its buffer, and the
  result the USB core gives to the resubmission.
\<close>

definition interrupt_handler :: "int \<Rightarrow> u8 \<Rightarrow> int \<Rightarrow> system \<Rightarrow> system" where
  "interrupt_handler urb_status buf resubmit s =
     (if urb_status = 0 then
        let s1 = s\<lparr>switches := buf\<rparr>;
            s2 = wake_up s1;
            (retval, s3) = usb_submit_int_urb resubmit s2
        in if retval \<noteq> 0 then dev_err retval s3 else s3
      else dev_err urb_status s)"

text \<open>
  A delivery: the USB core completes the interrupt URB, which is then no longer in
  flight, and calls the handler.
\<close>

definition deliver :: "int \<Rightarrow> u8 \<Rightarrow> int \<Rightarrow> system \<Rightarrow> system" where
  "deliver urb_status buf resubmit s =
     interrupt_handler urb_status buf resubmit (s\<lparr>int_urb_active := False\<rparr>)"

subsection \<open>Suspend and resume\<close>

text \<open>
  \<open>down\<close> is the result of \<open>down_interruptible\<close>: 0 when the semaphore was taken.
\<close>

definition osrfx2_suspend :: "int \<Rightarrow> system \<Rightarrow> int \<times> system" where
  "osrfx2_suspend down s =
     (if down \<noteq> 0 then (- ERESTARTSYS, s)
      else
        let s1 = s\<lparr>sem := sem s - 1\<rparr>;
            s2 = s1\<lparr>suspended := 1\<rparr>;
            s3 = usb_kill_int_urb s2;
            s4 = s3\<lparr>sem := sem s3 + 1\<rparr>
        in (0, s4))"

definition osrfx2_resume :: "int \<Rightarrow> int \<Rightarrow> system \<Rightarrow> int \<times> system" where
  "osrfx2_resume down submit s =
     (if down \<noteq> 0 then (- ERESTARTSYS, s)
      else
        let s1 = s\<lparr>sem := sem s - 1\<rparr>;
            s2 = s1\<lparr>suspended := 0\<rparr>;
            (retval, s3) = usb_submit_int_urb submit s2;
            s4 = (if retval \<noteq> 0
                  then let s' = dev_err retval s3
                       in if retval = - EHOSTUNREACH then dev_err retval s' else s'
                  else s3);
            s5 = s4\<lparr>sem := sem s4 + 1\<rparr>
        in (0, s5))"

subsection \<open>The invariant of the access arbiter\<close>



definition write_ok :: write_env where
  "write_ok =
     \<lparr>alloc_urb_ok = True, alloc_coherent_ok = True, copy_from_user_left = 0, submit_status = 0\<rparr>"

section \<open>Properties\<close>

subsection \<open>The bit tables of the two displays\<close>

lemma bit_str_pow: "bit_str x (2 ^ n) = (if bit x n then ''1'' else ''0'')"
  by (simp add: bit_str_def and_exp_eq_0_iff_not_bit)

lemma bit_str_masks:
  "bit_str x 0x01 = (if bit x 0 then ''1'' else ''0'')"
  "bit_str x 0x02 = (if bit x 1 then ''1'' else ''0'')"
  "bit_str x 0x04 = (if bit x 2 then ''1'' else ''0'')"
  "bit_str x 0x08 = (if bit x 3 then ''1'' else ''0'')"
  "bit_str x 0x10 = (if bit x 4 then ''1'' else ''0'')"
  "bit_str x 0x20 = (if bit x 5 then ''1'' else ''0'')"
  "bit_str x 0x40 = (if bit x 6 then ''1'' else ''0'')"
  "bit_str x 0x80 = (if bit x 7 then ''1'' else ''0'')"
  using bit_str_pow [of x 0] bit_str_pow [of x 1] bit_str_pow [of x 2] bit_str_pow [of x 3]
    bit_str_pow [of x 4] bit_str_pow [of x 5] bit_str_pow [of x 6] bit_str_pow [of x 7]
  by simp_all

lemma bit_double_u32: "bit (w * 2) n = (0 < n \<and> n < 32 \<and> bit w (n - 1))" for w :: u32
proof -
  have "w * 2 = push_bit 1 w" by (simp add: push_bit_eq_mult)
  then have "bit (w * 2) n = bit (push_bit 1 w) n" by (rule arg_cong)
  also have "\<dots> = (1 \<le> n \<and> n < 32 \<and> bit w (n - 1))"
    unfolding bit_push_bit_iff by (auto simp: bit_simps)
  finally show ?thesis by auto
qed

text \<open>
  Reading back what was set gives the text \<open>get_switches\<close> would print for the value
  itself: its eight bits, most significant first.
\<close>

lemma bargraph_format_remap:
  "bargraph_format (bargraph_remap 0 (ucast v)) = switches_format v" for v :: u8
  by (simp add: bargraph_format_def switches_format_def bit_str_masks bargraph_remap_def bit_simps)

lemma segment_format_remap:
  "segment_format (segment_remap 0 (ucast v)) = switches_format v" for v :: u8
  by (simp add: segment_format_def switches_format_def bit_str_masks segment_remap_def bit_simps
      bit_double_u32)

lemma unat_bits_u8:
  "unat v =
    of_bool (bit v 7) * 128 + of_bool (bit v 6) * 64 + of_bool (bit v 5) * 32 +
    of_bool (bit v 4) * 16 + of_bool (bit v 3) * 8 + of_bool (bit v 2) * 4 +
    of_bool (bit v 1) * 2 + of_bool (bit v 0)" for v :: u8
proof -
  have "take_bit 8 (unat v) = horner_sum of_bool 2 (map (bit (unat v)) [0..<8])"
    by (rule horner_sum_bit_eq_take_bit [symmetric])
  moreover have "take_bit 8 (unat v) = unat v"
    using unsigned_less [of v, where ?'a = nat] by (simp add: take_bit_nat_eq_self_iff)
  moreover have "[0..<8] = [0, 1, 2, 3, 4, 5, 6, 7::nat]"
    by (simp add: upt_rec)
  ultimately show ?thesis
    by (simp add: bit_unsigned_iff)
qed

lemma bin_value_switches_format: "bin_value (switches_format v) = unat v"
  by (simp add: switches_format_def bit_str_masks bin_value_def unat_bits_u8 [of v])

lemma bargraph_value_remap: "bargraph_value (bargraph_remap 0 (ucast v)) = v"
  by (simp add: bargraph_value_def bargraph_format_remap bin_value_switches_format)

lemma segment_value_remap: "segment_value (segment_remap 0 (ucast v)) = v"
  by (simp add: segment_value_def segment_format_remap bin_value_switches_format)

text \<open>The table the claim quotes: bits 3 to 7 move down by three, bits 0 to 2 up by five.\<close>

lemma bargraph_remap_closed_form:
  "bargraph_remap 0 v = ucast (drop_bit 3 v AND 0x1F) OR ucast (push_bit 5 v AND 0xE0)"
proof -
  have low: "(0x1F :: u32) = 0x01 OR 0x02 OR 0x04 OR 0x08 OR 0x10"
    and high: "(0xE0 :: u32) = 0x20 OR 0x40 OR 0x80"
    by simp_all
  show ?thesis
    unfolding bargraph_remap_def low high
    by (simp only: bit.conj_disj_distrib unsigned_or_eq or.assoc or.left_neutral)
qed

lemma left_inverse_bij:
  fixes f g :: "u8 \<Rightarrow> u8"
  assumes "\<And>v. g (f v) = v"
  shows "bij f" and "f (g p) = p"
proof -
  have "inj f" using assms by (metis injI)
  then have "surj f" by (rule finite_UNIV_inj_surj [OF finite])
  with \<open>inj f\<close> show "bij f" by (simp add: bij_def)
  from \<open>surj f\<close> obtain v where "p = f v" by (auto simp: surj_def)
  then show "f (g p) = p" using assms by simp
qed

text \<open>
  C1. For every byte \<open>v\<close>, the text \<open>get_bargraph\<close> prints for the register byte that
  \<open>set_bargraph\<close> computes from \<open>v\<close> denotes \<open>v\<close>, and likewise for the 7-segment
  display; in the other direction, setting the value read back from a register byte
  \<open>p\<close> gives \<open>p\<close> again. So each set table is a bijection on bytes and the get table
  is its inverse. The LED table is the one the claim quotes.
\<close>

theorem remap_roundtrip:
  fixes v p :: u8
  shows "bin_value (bargraph_format (bargraph_remap 0 (ucast v))) = unat v
       \<and> bin_value (segment_format (segment_remap 0 (ucast v))) = unat v
       \<and> bargraph_value (bargraph_remap 0 (ucast v)) = v
       \<and> segment_value (segment_remap 0 (ucast v)) = v
       \<and> bargraph_remap 0 (ucast (bargraph_value p)) = p
       \<and> segment_remap 0 (ucast (segment_value p)) = p
       \<and> bij (\<lambda>v :: u8. bargraph_remap 0 (ucast v))
       \<and> bij (\<lambda>v :: u8. segment_remap 0 (ucast v))
       \<and> bargraph_remap 0 (ucast v) =
           ucast (drop_bit 3 (ucast v :: u32) AND 0x1F) OR ucast (push_bit 5 (ucast v :: u32) AND 0xE0)"
proof -
  have "bij (\<lambda>v :: u8. bargraph_remap 0 (ucast v))"
    and "bargraph_remap 0 (ucast (bargraph_value p)) = p"
    by (rule left_inverse_bij [of bargraph_value, OF bargraph_value_remap])+
  moreover have "bij (\<lambda>v :: u8. segment_remap 0 (ucast v))"
    and "segment_remap 0 (ucast (segment_value p)) = p"
    by (rule left_inverse_bij [of segment_value, OF segment_value_remap])+
  moreover have "bin_value (bargraph_format (bargraph_remap 0 (ucast v))) = unat v"
    and "bin_value (segment_format (segment_remap 0 (ucast v))) = unat v"
    by (simp_all add: bargraph_format_remap segment_format_remap bin_value_switches_format)
  ultimately show ?thesis
    using bargraph_value_remap [of v] segment_value_remap [of v]
      bargraph_remap_closed_form [of "ucast v"]
    by blast
qed

subsection \<open>The attribute handlers\<close>

lemmas usb_defs = usb_bulk_msg_def usb_submit_bulk_urb_def usb_submit_int_urb_def
  usb_kill_int_urb_def usb_control_msg_in_def usb_control_msg_out_def wake_up_def
  board_register_def board_store_def dev_err_def emit_def

lemma simple_strtoul_257: "simple_strtoul ''257'' = (257, 3)"
  by (simp add: simple_strtoul_def isdigit_def)

lemma simple_strtoul_300: "simple_strtoul ''300'' = (300, 3)"
  by (simp add: simple_strtoul_def isdigit_def)

text \<open>
  The range check of both \<open>set\<close> handlers never fires: \<open>value\<close> has been masked to its
  low byte before it is compared with 255.
\<close>

lemma masked_value_in_range: "\<not> (ucast (parsed AND 0xFF :: 64 word) :: u32) > 255"
proof -
  have "parsed AND 0xFF \<le> 0xFF" by (rule word_and_le1)
  then have "uint (parsed AND 0xFF) \<le> 255" by (simp add: word_le_def)
  then have "uint (ucast (parsed AND 0xFF) :: u32) \<le> 255"
    by (simp add: unsigned_ucast_eq take_bit_int_eq_self)
  then show ?thesis by (simp add: word_less_def)
qed

text \<open>
  C2. The claim fails on the code. For the input \<open>257\<close>, whose numeric prefix is above
  255, \<open>set_bargraph\<close> sends the remapped low byte of the value (1, register byte
  \<open>0x20\<close>) to the board, not 0, and the next \<open>get_bargraph\<close> prints \<open>00000001\<close>;
  \<open>set_7segment\<close> does the same with \<open>300\<close>, whose low byte is 44.
\<close>

theorem set_above_255_is_masked:
  "leds (snd (set_bargraph 1 ''257'' 3 s)) = 0x20
   \<and> board_leds (snd (set_bargraph 1 ''257'' 3 s)) = 0x20
   \<and> fst (get_bargraph 1 (snd (set_bargraph 1 ''257'' 3 (s\<lparr>suspended := 0\<rparr>)))) =
        (8, ''00000001'')
   \<and> fst (get_7segment 1 (snd (set_7segment 1 ''300'' 3 (s\<lparr>suspended := 0\<rparr>)))) =
        (8, ''00101100'')"
  by (simp add: set_bargraph_def get_bargraph_def set_7segment_def get_7segment_def
      simple_strtoul_257 simple_strtoul_300 bargraph_remap_def segment_remap_def usb_defs
      SET_LEDS_def READ_LEDS_def SET_7SEG_def READ_7SEG_def Let_def
      bargraph_format_def segment_format_def bit_str_def)

text \<open>
  What \<open>get_7segment\<close> does when the control transfer fails: it returns the status and
  writes nothing.
\<close>

lemma get_7segment_transfer_failed:
  assumes "suspended s = 0" "status < 0"
  shows "fst (get_7segment status s) = (status, [])"
  using assms by (simp add: get_7segment_def usb_defs Let_def)

text \<open>
  C3. The claim fails on the code for the LED attribute. With the device not suspended
  and the control transfer failing with \<open>-110\<close> (\<open>ETIMEDOUT\<close>), \<open>get_bargraph\<close> returns
  8 and the text \<open>00000000\<close>, printed from the cached \<open>leds\<close> byte it zeroed before the
  transfer, whatever the board shows (here every LED is on); \<open>get_7segment\<close>, in the
  same situation, returns \<open>-110\<close> and prints nothing.
\<close>

theorem get_bargraph_ignores_failed_transfer:
  "fst (get_bargraph (- 110) (s\<lparr>suspended := 0, board_leds := 0xFF\<rparr>)) = (8, ''00000000'')
   \<and> fst (get_7segment (- 110) (s\<lparr>suspended := 0, board_segments := 0xFF\<rparr>)) = (- 110, [])"
  by (simp add: get_bargraph_def get_7segment_def usb_defs Let_def bargraph_format_def
      bit_str_def)

text \<open>What both \<open>set\<close> handlers send, for every input text.\<close>

lemma parse_digits_end:
  "n \<le> snd (parse_digits cs r n)"
  "snd (parse_digits cs r n) = n \<Longrightarrow> fst (parse_digits cs r n) = r"
proof (induction cs arbitrary: r n)
  case Nil
  { case 1 show ?case by simp }
  { case 2 show ?case by simp }
next
  case (Cons c cs)
  { case 1
    show ?case using Cons.IH(1) [of "Suc n" "r * 10 + word_of_nat (of_char c - 48)"]
      by (simp add: Suc_leD) }
  { case 2
    then show ?case using Cons.IH(1) [of "Suc n" "r * 10 + word_of_nat (of_char c - 48)"]
      by (auto split: if_splits) }
qed

lemma simple_strtoul_nothing:
  "snd (simple_strtoul buf) = 0 \<Longrightarrow> fst (simple_strtoul buf) = 0"
  by (simp add: simple_strtoul_def parse_digits_end(2))

lemma low_byte: "(ucast (parsed AND 0xFF :: 64 word) :: u32) = ucast (ucast parsed :: u8)"
proof -
  have "(0xFF :: 64 word) = mask 8" by (simp add: mask_eq_exp_minus_1)
  then have "parsed AND 0xFF = take_bit 8 parsed" by (simp add: take_bit_eq_mask)
  then show ?thesis
    by (intro bit_word_eqI) (auto simp: bit_simps)
qed

lemma set_value:
  "(let (parsed, end) = simple_strtoul buf;
        value = (ucast (parsed AND 0xFF) :: u32)
    in (if end = 0 then 0 else value)) = ucast (ucast (fst (simple_strtoul buf)) :: u8)"
  by (cases "simple_strtoul buf") (use simple_strtoul_nothing [of buf] in \<open>auto simp: low_byte\<close>)

lemma set_bargraph_leds:
  "leds (snd (set_bargraph status buf count s)) =
     bargraph_remap 0 (ucast (ucast (fst (simple_strtoul buf)) :: u8))"
  using set_value [of buf] masked_value_in_range
  by (auto simp: set_bargraph_def usb_defs Let_def SET_LEDS_def split: prod.splits if_splits)

lemma set_7segment_segments:
  "segments (snd (set_7segment status buf count s)) =
     segment_remap 0 (ucast (ucast (fst (simple_strtoul buf)) :: u8))"
  using set_value [of buf] masked_value_in_range
  by (auto simp: set_7segment_def usb_defs Let_def SET_7SEG_def split: prod.splits if_splits)

lemma set_bargraph_board:
  assumes "1 \<le> status"
  shows "board_leds (snd (set_bargraph status buf count s)) =
           leds (snd (set_bargraph status buf count s))"
    and "suspended (snd (set_bargraph status buf count s)) = suspended s"
  using assms
  by (auto simp: set_bargraph_def usb_defs Let_def SET_LEDS_def split: prod.splits if_splits)

lemma set_7segment_board:
  assumes "1 \<le> status"
  shows "board_segments (snd (set_7segment status buf count s)) =
           segments (snd (set_7segment status buf count s))"
    and "suspended (snd (set_7segment status buf count s)) = suspended s"
  using assms
  by (auto simp: set_7segment_def usb_defs Let_def SET_7SEG_def SET_LEDS_def
      split: prod.splits if_splits)

lemma get_bargraph_board:
  assumes "1 \<le> status" "suspended s = 0"
  shows "fst (get_bargraph status s) = (8, bargraph_format (board_leds s))"
  using assms
  by (simp add: get_bargraph_def usb_defs Let_def READ_LEDS_def bargraph_format_def bit_str_def)

lemma get_7segment_board:
  assumes "1 \<le> status" "suspended s = 0"
  shows "fst (get_7segment status s) = (8, segment_format (board_segments s))"
  using assms
  by (simp add: get_7segment_def usb_defs Let_def READ_7SEG_def READ_LEDS_def
      segment_format_def bit_str_def)

text \<open>
  X1. With the device not suspended and both control transfers succeeding, a \<open>set\<close>
  followed by a \<open>get\<close> of the same attribute prints, for every input text, the eight
  bits of the low byte of its leading decimal number, most significant first; a text
  with no leading digit counts as 0.
\<close>

theorem set_then_get_prints_low_byte:
  "1 \<le> out \<and> 1 \<le> inp \<and> suspended s = 0 \<longrightarrow>
     fst (get_bargraph inp (snd (set_bargraph out buf count s))) =
       (8, switches_format (ucast (fst (simple_strtoul buf))))
     \<and> fst (get_7segment inp (snd (set_7segment out buf count s))) =
       (8, switches_format (ucast (fst (simple_strtoul buf))))"
  by (simp add: get_bargraph_board set_bargraph_board set_bargraph_leds bargraph_format_remap
      get_7segment_board set_7segment_board set_7segment_segments segment_format_remap)

theorem set_then_get_prints_low_byte_witness:
  "(1 :: int) \<le> 1 \<and> suspended probed = 0
   \<and> fst (get_bargraph 1 (snd (set_bargraph 1 ''255'' 3 probed))) = (8, ''11111111'')
   \<and> fst (get_7segment 1 (snd (set_7segment 1 ''255'' 3 probed))) = (8, ''11111111'')
   \<and> fst (get_bargraph 1 (snd (set_bargraph 1 ''abc'' 3 probed))) = (8, ''00000000'')
   \<and> fst (get_bargraph 1 (snd (set_bargraph 1 ''256'' 3 probed))) = (8, ''00000000'')"
proof -
  have h: "(1 :: int) \<le> 1" "suspended probed = 0"
    by (simp_all add: probed_def)
  have p: "simple_strtoul ''255'' = (255, 3)" "simple_strtoul ''abc'' = (0, 0)"
    "simple_strtoul ''256'' = (256, 3)"
    by (simp_all add: simple_strtoul_def isdigit_def)
  have f: "switches_format 255 = ''11111111''" "switches_format 0 = ''00000000''"
    "switches_format 256 = ''00000000''"
    by (simp_all add: switches_format_def bit_str_def)
  from set_then_get_prints_low_byte [of 1 1 probed "''255''" 3]
    set_then_get_prints_low_byte [of 1 1 probed "''abc''" 3]
    set_then_get_prints_low_byte [of 1 1 probed "''256''" 3] h
  show ?thesis by (simp add: p f)
qed

subsection \<open>Suspend and resume\<close>

lemma resume_state:
  "suspended (snd (osrfx2_resume 0 submit s)) = 0"
  "trace (snd (osrfx2_resume 0 submit s)) =
     trace s @ [SubmitInt] @
       (if submit = 0 then []
        else if submit = - EHOSTUNREACH then [DevErr submit, DevErr submit]
        else [DevErr submit])"
  "int_urb_active (snd (osrfx2_resume 0 0 s))"
  by (simp_all add: osrfx2_resume_def usb_defs Let_def)

lemma suspend_state:
  "suspended (snd (osrfx2_suspend 0 s)) = 1"
  "\<not> int_urb_active (snd (osrfx2_suspend 0 s))"
  by (simp_all add: osrfx2_suspend_def usb_defs Let_def)

lemma get_bargraph_trace:
  assumes "suspended s = 0"
  shows "trace (snd (get_bargraph status s)) = trace s @ [ControlIn READ_LEDS]"
  using assms by (simp add: get_bargraph_def usb_defs Let_def)

lemma get_7segment_trace:
  assumes "suspended s = 0"
  shows "trace (snd (get_7segment status s)) =
           trace s @ [ControlIn READ_7SEG] @ (if status < 0 then [DevErr status] else [])"
  using assms by (simp add: get_7segment_def usb_defs Let_def)

text \<open>
  C8. While \<open>suspended\<close> is set, as \<open>osrfx2_suspend\<close> sets it, both \<open>get\<close> handlers
  return 2 and the text \<open>S \<close> and leave the whole state as it was: no control transfer
  enters the trace, and neither the cached bytes nor the registers of the board
  change. \<open>osrfx2_resume\<close> clears \<open>suspended\<close>, and the next read of either attribute
  issues its control transfer.
\<close>

theorem suspended_reads_short_circuit:
  "(suspended s \<noteq> 0 \<longrightarrow>
      get_bargraph status s = ((2, ''S ''), s) \<and> get_7segment status s = ((2, ''S ''), s))
   \<and> suspended (snd (osrfx2_suspend 0 s)) \<noteq> 0
   \<and> suspended (snd (osrfx2_resume 0 submit s)) = 0
   \<and> trace (snd (get_bargraph status (snd (osrfx2_resume 0 submit s)))) =
        trace (snd (osrfx2_resume 0 submit s)) @ [ControlIn READ_LEDS]
   \<and> trace (snd (get_7segment status (snd (osrfx2_resume 0 submit s)))) =
        trace (snd (osrfx2_resume 0 submit s)) @ [ControlIn READ_7SEG]
          @ (if status < 0 then [DevErr status] else [])"
proof -
  have "suspended s \<noteq> 0 \<longrightarrow>
      get_bargraph status s = ((2, ''S ''), s) \<and> get_7segment status s = ((2, ''S ''), s)"
    by (simp add: get_bargraph_def get_7segment_def)
  then show ?thesis
    by (simp only: resume_state(1) suspend_state(1) get_bargraph_trace get_7segment_trace)
      simp
qed

theorem suspended_reads_short_circuit_witness:
  "suspended (snd (osrfx2_suspend 0 probed)) \<noteq> 0
   \<and> get_bargraph 1 (snd (osrfx2_suspend 0 probed)) = ((2, ''S ''), snd (osrfx2_suspend 0 probed))
   \<and> get_7segment 1 (snd (osrfx2_suspend 0 probed)) = ((2, ''S ''), snd (osrfx2_suspend 0 probed))
   \<and> trace (snd (get_bargraph 1 (snd (osrfx2_resume 0 0 (snd (osrfx2_suspend 0 probed)))))) =
        [KillInt, SubmitInt, ControlIn READ_LEDS]"
proof -
  have h: "suspended (snd (osrfx2_suspend 0 probed)) \<noteq> 0"
    by (simp add: osrfx2_suspend_def usb_defs Let_def)
  have t: "trace (snd (osrfx2_resume 0 0 (snd (osrfx2_suspend 0 probed)))) = [KillInt, SubmitInt]"
    by (simp add: osrfx2_resume_def osrfx2_suspend_def usb_defs Let_def probed_def)
  from h t
    suspended_reads_short_circuit [of "snd (osrfx2_suspend 0 probed)" 1 0]
  show ?thesis by simp
qed

subsection \<open>The access arbiter\<close>


lemma accmode_neq [simp]:
  "O_RDONLY \<noteq> O_WRONLY" "O_RDONLY \<noteq> O_RDWR" "O_WRONLY \<noteq> O_RDWR"
  "O_WRONLY \<noteq> O_RDONLY" "O_RDWR \<noteq> O_RDONLY" "O_RDWR \<noteq> O_WRONLY"
  by (simp_all add: O_RDONLY_def O_WRONLY_def O_RDWR_def)

lemma errno_neq [simp]: "ENODEV \<noteq> EBUSY" "EBUSY \<noteq> 0" "ENODEV \<noteq> 0"
  by (simp_all add: ENODEV_def EBUSY_def)










lemma holds_private_data [simp]:
  "holds_write (filp\<lparr>private_data := b\<rparr>) = holds_write filp"
  "holds_read (filp\<lparr>private_data := b\<rparr>) = holds_read filp"
  by (simp_all add: holds_write_def holds_read_def)









subsection \<open>Bulk write and read\<close>

lemma write_zero: "osrfx2_write env 0 s = Returns (0, s)"
  by (simp add: osrfx2_write_def)

lemma fill_length_low_bits: "usb_fill_bulk_urb count = ucast count"
  by (simp add: usb_fill_bulk_urb_def)

lemma fill_length_fits:
  fixes count :: size_t
  assumes "count < 2 ^ 32"
  shows "uint (ucast count :: u32) = uint count"
proof -
  from assms have "uint count < 2 ^ 32" by (simp add: word_less_alt)
  then have "take_bit 32 (uint count) = uint count"
    by (simp add: take_bit_int_eq_self)
  then show ?thesis by (simp add: unsigned_ucast_eq)
qed

lemma write_accepted:
  assumes "count \<noteq> 0" "alloc_urb_ok env" "alloc_coherent_ok env"
    "copy_from_user_left env = 0" "submit_status env = 0"
  shows "osrfx2_write env count s =
           Returns (sint count,
             s\<lparr>pending_data := pending_data s + count,
               trace := trace s @ [SubmitBulkOut (bulk_out_endpointAddr s) (ucast count)]\<rparr>)"
  using assms
  by (simp add: osrfx2_write_def usb_alloc_urb_def usb_defs Let_def fill_length_low_bits)

lemma sint_size_t:
  fixes count :: size_t
  assumes "count < 2 ^ 63"
  shows "sint count = uint count"
proof -
  from assms have "uint count < 2 ^ 63" by (simp add: word_less_alt)
  moreover have "- (2 ^ 63) \<le> uint count"
    by (rule order_trans [OF _ uint_ge_0]) simp
  ultimately have "signed_take_bit 63 (uint count) = uint count"
    by (intro signed_take_bit_int_eq_self)
  then show ?thesis by (simp add: sint_uint)
qed

lemma write_urb_alloc_fails:
  assumes "count \<noteq> 0" "\<not> alloc_urb_ok env"
  shows "osrfx2_write env count s = NullDeref"
  using assms
  by (simp add: osrfx2_write_def usb_alloc_urb_def urb_transfer_dma_def and_then_def)

lemma write_buffer_alloc_fails:
  assumes "count \<noteq> 0" "alloc_urb_ok env" "\<not> alloc_coherent_ok env"
  shows "osrfx2_write env count s = Returns (- ENOMEM, s)"
  using assms
  by (simp add: osrfx2_write_def usb_alloc_urb_def urb_transfer_dma_def and_then_def)

lemma read_trace:
  "trace (snd (osrfx2_read env count s)) =
     trace s @ [BulkMsgIn (bulk_in_endpointAddr s)
                  (sint (ucast (min (bulk_in_size s) count) :: 32 word)) 10000]"
  by (simp add: osrfx2_read_def usb_defs Let_def)

lemma read_delivered:
  assumes "bulk_msg_status env = 0" "copy_to_user_left env = 0"
  shows "fst (osrfx2_read env count s) = bytes_read env"
    and "pending_data (snd (osrfx2_read env count s)) = pending_data s - word_of_int (bytes_read env)"
  using assms by (simp_all add: osrfx2_read_def usb_defs Let_def)

lemma read_faulted:
  assumes "bulk_msg_status env = 0" "copy_to_user_left env \<noteq> 0"
  shows "fst (osrfx2_read env count s) = - 14"
    and "pending_data (snd (osrfx2_read env count s)) = pending_data s + 14"
  using assms by (simp_all add: osrfx2_read_def usb_defs Let_def EFAULT_def)

lemma read_failed:
  assumes "bulk_msg_status env \<noteq> 0"
  shows "fst (osrfx2_read env count s) = bulk_msg_status env"
    and "pending_data (snd (osrfx2_read env count s)) = pending_data s"
  using assms by (simp_all add: osrfx2_read_def usb_defs Let_def)

lemma len_fits:
  fixes a b :: size_t
  assumes "a < 2 ^ 31"
  shows "sint (ucast (min a b) :: 32 word) = uint (min a b)"
proof -
  have "min a b \<le> a" by simp
  then have "uint (min a b) \<le> uint a" by (simp only: word_le_def)
  moreover from assms have "uint a < 2 ^ 31" by (simp add: word_less_alt)
  ultimately have "uint (min a b) < 2 ^ 31" by simp
  moreover have "- (2 ^ 31) \<le> uint (min a b)"
    by (rule order_trans [OF _ uint_ge_0]) simp
  ultimately have "signed_take_bit 31 (uint (min a b)) = uint (min a b)"
    by (intro signed_take_bit_int_eq_self)
  then show ?thesis by (simp add: signed_ucast_eq)
qed

lemma pending_decrease:
  fixes p :: size_t
  assumes "0 \<le> n" "n \<le> uint p"
  shows "uint (p - word_of_int n) = uint p - n"
proof -
  have "uint p < 2 ^ 64" using uint_bounded [of p] by simp
  with assms have n: "uint (word_of_int n :: size_t) = n"
    by (simp add: uint_word_of_int_eq take_bit_int_eq_self)
  with assms have "uint (word_of_int n :: size_t) \<le> uint p" by simp
  then have "uint (p - word_of_int n) = uint p - uint (word_of_int n :: size_t)"
    by (simp only: uint_sub_lem)
  with n show ?thesis by simp
qed

text \<open>
  C5. A write of zero bytes returns 0 and leaves the whole state as it was: nothing
  enters the trace and \<open>pending_data\<close> keeps its value. A write of \<open>count\<close> bytes whose
  allocations, copy and submission succeed submits one bulk-out URB, adds \<open>count\<close> to
  \<open>pending_data\<close> and returns \<open>count\<close>, without waiting for the completion. The
  return type is signed: the value is \<open>count\<close> read as a \<open>ssize_t\<close>, which is \<open>count\<close>
  itself below \<open>2^63\<close>. The length of the URB is a 32-bit field: it holds the low 32
  bits of \<open>count\<close>, which is \<open>count\<close> itself below \<open>2^32\<close>.
\<close>

theorem write_accepts:
  "osrfx2_write env 0 s = Returns (0, s)
   \<and> (count \<noteq> 0 \<and> alloc_urb_ok env \<and> alloc_coherent_ok env
        \<and> copy_from_user_left env = 0 \<and> submit_status env = 0 \<longrightarrow>
        osrfx2_write env count s =
          Returns (sint count,
            s\<lparr>pending_data := pending_data s + count,
              trace := trace s @ [SubmitBulkOut (bulk_out_endpointAddr s) (ucast count)]\<rparr>))
   \<and> (count < 2 ^ 63 \<longrightarrow> sint count = uint count)
   \<and> (count < 2 ^ 32 \<longrightarrow> uint (ucast count :: u32) = uint count)"
  using write_zero [of env s] write_accepted [of count env s] sint_size_t [of count]
    fill_length_fits [of count]
  by blast

theorem write_accepts_witness:
  "(5 :: size_t) \<noteq> 0 \<and> (5 :: size_t) < 2 ^ 63 \<and> (5 :: size_t) < 2 ^ 32
   \<and> alloc_urb_ok write_ok \<and> alloc_coherent_ok write_ok
   \<and> copy_from_user_left write_ok = 0 \<and> submit_status write_ok = 0
   \<and> osrfx2_write write_ok 5 probed =
        Returns (5, probed\<lparr>pending_data := 5, trace := [SubmitBulkOut 0x06 5]\<rparr>)"
proof -
  have h: "(5 :: size_t) \<noteq> 0" "(5 :: size_t) < 2 ^ 63" "(5 :: size_t) < 2 ^ 32"
    "alloc_urb_ok write_ok" "alloc_coherent_ok write_ok"
    "copy_from_user_left write_ok = 0" "submit_status write_ok = 0"
    by (simp_all add: write_ok_def)
  have p: "pending_data probed = 0" "trace probed = []" "bulk_out_endpointAddr probed = 0x06"
    by (simp_all add: probed_def)
  from write_accepts [of write_ok probed 5] h
  have "osrfx2_write write_ok 5 probed =
          Returns (uint (5 :: size_t),
            probed\<lparr>pending_data := pending_data probed + 5,
              trace := trace probed @
                [SubmitBulkOut (bulk_out_endpointAddr probed) (ucast (5 :: size_t))]\<rparr>)"
    by simp
  with h p show ?thesis by simp
qed

text \<open>
  C6. Every call of \<open>osrfx2_read\<close> issues exactly one \<open>usb_bulk_msg\<close> on the bulk-in
  endpoint, with the length \<open>min(bulk_in_size, count)\<close> converted to \<open>int\<close> and a
  timeout of 10000 milliseconds; the conversion keeps the value when \<open>bulk_in_size\<close>
  is below \<open>2^31\<close> (\<open>osrfx2_probe\<close> takes it from a 16-bit descriptor field). When the
  transfer succeeds and \<open>copy_to_user\<close> copies everything, the call returns the
  number of bytes read and subtracts it from \<open>pending_data\<close>, in \<open>size_t\<close> arithmetic;
  when that number is between 0 and \<open>pending_data\<close> the counter goes down by exactly
  that number.
\<close>

theorem read_delivers:
  "trace (snd (osrfx2_read env count s)) =
     trace s @ [BulkMsgIn (bulk_in_endpointAddr s)
                  (sint (ucast (min (bulk_in_size s) count) :: 32 word)) 10000]
   \<and> (bulk_in_size s < 2 ^ 31 \<longrightarrow>
        sint (ucast (min (bulk_in_size s) count) :: 32 word) = uint (min (bulk_in_size s) count))
   \<and> (bulk_msg_status env = 0 \<and> copy_to_user_left env = 0 \<longrightarrow>
        fst (osrfx2_read env count s) = bytes_read env
        \<and> pending_data (snd (osrfx2_read env count s)) =
            pending_data s - word_of_int (bytes_read env))
   \<and> (bulk_msg_status env = 0 \<and> copy_to_user_left env = 0
        \<and> 0 \<le> bytes_read env \<and> bytes_read env \<le> uint (pending_data s) \<longrightarrow>
        uint (pending_data (snd (osrfx2_read env count s))) =
          uint (pending_data s) - bytes_read env)"
proof (intro conjI impI)
  show "trace (snd (osrfx2_read env count s)) =
     trace s @ [BulkMsgIn (bulk_in_endpointAddr s)
                  (sint (ucast (min (bulk_in_size s) count) :: 32 word)) 10000]"
    by (rule read_trace)
next
  assume "bulk_in_size s < 2 ^ 31"
  then show "sint (ucast (min (bulk_in_size s) count) :: 32 word) =
      uint (min (bulk_in_size s) count)"
    by (rule len_fits)
next
  assume "bulk_msg_status env = 0 \<and> copy_to_user_left env = 0"
  then show "fst (osrfx2_read env count s) = bytes_read env"
    and "pending_data (snd (osrfx2_read env count s)) =
            pending_data s - word_of_int (bytes_read env)"
    by (simp_all add: read_delivered)
next
  assume a: "bulk_msg_status env = 0 \<and> copy_to_user_left env = 0
        \<and> 0 \<le> bytes_read env \<and> bytes_read env \<le> uint (pending_data s)"
  then have "pending_data (snd (osrfx2_read env count s)) =
      pending_data s - word_of_int (bytes_read env)"
    by (simp add: read_delivered)
  with a show "uint (pending_data (snd (osrfx2_read env count s))) =
      uint (pending_data s) - bytes_read env"
    by (simp add: pending_decrease)
qed

theorem read_delivers_witness:
  "bulk_in_size (probed\<lparr>pending_data := 100\<rparr>) < 2 ^ 31
   \<and> osrfx2_read \<lparr>bulk_msg_status = 0, bytes_read = 64, copy_to_user_left = 0\<rparr> 4096
        (probed\<lparr>pending_data := 100\<rparr>) =
       (64, probed\<lparr>pending_data := 36, trace := [BulkMsgIn 0x88 512 10000]\<rparr>)
   \<and> uint (pending_data (snd (osrfx2_read
        \<lparr>bulk_msg_status = 0, bytes_read = 64, copy_to_user_left = 0\<rparr> 4096
        (probed\<lparr>pending_data := 100\<rparr>)))) = 100 - 64"
proof -
  let ?env = "\<lparr>bulk_msg_status = 0, bytes_read = 64, copy_to_user_left = 0\<rparr>"
  let ?s = "probed\<lparr>pending_data := 100\<rparr>"
  have h: "bulk_in_size ?s < 2 ^ 31" "bulk_msg_status ?env = 0" "copy_to_user_left ?env = 0"
    "0 \<le> bytes_read ?env" "bytes_read ?env \<le> uint (pending_data ?s)"
    by (simp_all add: probed_def)
  have e: "osrfx2_read ?env 4096 ?s =
      (64, probed\<lparr>pending_data := 36, trace := [BulkMsgIn 0x88 512 10000]\<rparr>)"
    by (simp add: osrfx2_read_def usb_defs Let_def probed_def)
  from read_delivers [of ?env 4096 ?s] h
  have "uint (pending_data (snd (osrfx2_read ?env 4096 ?s))) =
          uint (pending_data ?s) - bytes_read ?env"
    by blast
  with h(1) e show ?thesis by simp
qed

text \<open>
  C10. When the transfer succeeds and \<open>copy_to_user\<close> leaves bytes uncopied, the call
  returns \<open>-EFAULT\<close>, which is \<open>-14\<close>, and \<open>pending_data -= retval\<close> has run with that
  value: \<open>pending_data\<close> is 14 higher than before, whatever was read. On the other
  error path, a failed transfer, \<open>pending_data\<close> keeps its value.
\<close>

theorem read_fault_moves_pending_data:
  "(bulk_msg_status env = 0 \<and> copy_to_user_left env \<noteq> 0 \<longrightarrow>
      fst (osrfx2_read env count s) = - EFAULT
      \<and> fst (osrfx2_read env count s) = - 14
      \<and> pending_data (snd (osrfx2_read env count s)) = pending_data s + 14)
   \<and> (bulk_msg_status env \<noteq> 0 \<longrightarrow>
      fst (osrfx2_read env count s) = bulk_msg_status env
      \<and> pending_data (snd (osrfx2_read env count s)) = pending_data s)"
  using read_faulted [of env count s] read_failed [of env count s]
  by (simp add: EFAULT_def)

theorem read_fault_moves_pending_data_witness:
  "osrfx2_read \<lparr>bulk_msg_status = 0, bytes_read = 64, copy_to_user_left = 64\<rparr> 4096
      (probed\<lparr>pending_data := 100\<rparr>) =
     (- 14, probed\<lparr>pending_data := 114, trace := [BulkMsgIn 0x88 512 10000]\<rparr>)
   \<and> pending_data (snd (osrfx2_read \<lparr>bulk_msg_status = - 110, bytes_read = 0,
        copy_to_user_left = 0\<rparr> 4096 (probed\<lparr>pending_data := 100\<rparr>))) = 100"
proof -
  let ?fault = "\<lparr>bulk_msg_status = 0, bytes_read = 64, copy_to_user_left = 64\<rparr>"
  let ?fail = "\<lparr>bulk_msg_status = - 110, bytes_read = 0, copy_to_user_left = 0\<rparr>"
  let ?s = "probed\<lparr>pending_data := 100\<rparr>"
  have h: "bulk_msg_status ?fault = 0" "copy_to_user_left ?fault \<noteq> 0"
    "bulk_msg_status ?fail \<noteq> 0"
    by simp_all
  have e: "osrfx2_read ?fault 4096 ?s =
      (- 14, probed\<lparr>pending_data := 114, trace := [BulkMsgIn 0x88 512 10000]\<rparr>)"
    by (simp add: osrfx2_read_def usb_defs Let_def probed_def EFAULT_def)
  from read_fault_moves_pending_data [of ?fail 4096 ?s] h(3)
  have "pending_data (snd (osrfx2_read ?fail 4096 ?s)) = pending_data ?s"
    by blast
  moreover from read_fault_moves_pending_data [of ?fault 4096 ?s] h(1,2)
  have "pending_data (snd (osrfx2_read ?fault 4096 ?s)) = pending_data ?s + 14"
    by blast
  ultimately show ?thesis using e by simp
qed

text \<open>
  C9. When \<open>usb_alloc_urb\<close> returns a null pointer, the error branch of a non-empty
  write evaluates \<open>urb->transfer_dma\<close> on it: the run stops at that dereference, before
  the \<open>return\<close> of \<open>-ENOMEM\<close> is reached. The next branch (URB allocated, buffer not) is
  safe and returns \<open>-ENOMEM\<close> with the state unchanged.
\<close>

theorem write_urb_alloc_failure_dereferences_null:
  "(count \<noteq> 0 \<and> \<not> alloc_urb_ok env \<longrightarrow>
      usb_alloc_urb (alloc_urb_ok env) = None
      \<and> urb_transfer_dma (usb_alloc_urb (alloc_urb_ok env)) = NullDeref
      \<and> osrfx2_write env count s = NullDeref)
   \<and> (count \<noteq> 0 \<and> alloc_urb_ok env \<and> \<not> alloc_coherent_ok env \<longrightarrow>
      osrfx2_write env count s = Returns (- ENOMEM, s))"
  using write_urb_alloc_fails [of count env s] write_buffer_alloc_fails [of count env s]
  by (simp add: usb_alloc_urb_def urb_transfer_dma_def)

theorem write_urb_alloc_failure_dereferences_null_witness:
  "(5 :: size_t) \<noteq> 0
   \<and> \<not> alloc_urb_ok (write_ok\<lparr>alloc_urb_ok := False\<rparr>)
   \<and> osrfx2_write (write_ok\<lparr>alloc_urb_ok := False\<rparr>) 5 probed = NullDeref
   \<and> osrfx2_write (write_ok\<lparr>alloc_coherent_ok := False\<rparr>) 5 probed = Returns (- 12, probed)"
proof -
  have h: "(5 :: size_t) \<noteq> 0" "\<not> alloc_urb_ok (write_ok\<lparr>alloc_urb_ok := False\<rparr>)"
    "alloc_urb_ok (write_ok\<lparr>alloc_coherent_ok := False\<rparr>)"
    "\<not> alloc_coherent_ok (write_ok\<lparr>alloc_coherent_ok := False\<rparr>)"
    by (simp_all add: write_ok_def)
  from write_urb_alloc_failure_dereferences_null [of 5 "write_ok\<lparr>alloc_urb_ok := False\<rparr>" probed]
    write_urb_alloc_failure_dereferences_null [of 5 "write_ok\<lparr>alloc_coherent_ok := False\<rparr>" probed]
    h
  show ?thesis by (simp add: ENOMEM_def)
qed

subsection \<open>The interrupt listener\<close>

lemma handler_delivery:
  "switches (interrupt_handler 0 buf resubmit s) = buf"
  "trace (interrupt_handler 0 buf resubmit s) =
     trace s @ [WakeUp buf, SubmitInt] @ (if resubmit \<noteq> 0 then [DevErr resubmit] else [])"
  "int_urb_active (deliver 0 buf 0 s)"
  by (simp_all add: interrupt_handler_def deliver_def usb_defs Let_def)

lemma handler_failure:
  assumes "urb_status \<noteq> 0"
  shows "interrupt_handler urb_status buf resubmit s = s\<lparr>trace := trace s @ [DevErr urb_status]\<rparr>"
    and "\<not> int_urb_active (deliver urb_status buf resubmit s)"
    and "switches (deliver urb_status buf resubmit s) = switches s"
  using assms by (simp_all add: interrupt_handler_def deliver_def usb_defs)

text \<open>
  C7. A delivery with status 0 stores the payload in \<open>switches\<close>, then wakes the
  observers, who find the new byte there (the \<open>WakeUp\<close> event carries the payload),
  then resubmits the URB; with a resubmission that succeeds the listener is armed
  again. A delivery with another status changes nothing but the log: \<open>switches\<close> keeps
  its value, no \<open>SubmitInt\<close> is issued and the URB stays out of flight. \<open>osrfx2_resume\<close>
  submits it again.
\<close>

theorem interrupt_delivery_order:
  "switches (interrupt_handler 0 buf resubmit s) = buf
   \<and> trace (interrupt_handler 0 buf resubmit s) =
       trace s @ [WakeUp buf, SubmitInt] @ (if resubmit \<noteq> 0 then [DevErr resubmit] else [])
   \<and> int_urb_active (deliver 0 buf 0 s)
   \<and> (urb_status \<noteq> 0 \<longrightarrow>
        interrupt_handler urb_status buf resubmit s =
          s\<lparr>trace := trace s @ [DevErr urb_status]\<rparr>
        \<and> \<not> int_urb_active (deliver urb_status buf resubmit s)
        \<and> switches (deliver urb_status buf resubmit s) = switches s)
   \<and> trace (snd (osrfx2_resume 0 0 s)) = trace s @ [SubmitInt]
   \<and> int_urb_active (snd (osrfx2_resume 0 0 s))"
  using handler_delivery(1,2) [of buf resubmit s] handler_delivery(3) [of buf s]
    handler_failure [of urb_status buf resubmit s]
    resume_state(2) [where submit = 0 and s = s] resume_state(3) [where s = s]
  by simp

theorem interrupt_delivery_order_witness:
  "(- 71 :: int) \<noteq> 0
   \<and> deliver (- 71) 0x5A 0 probed = probed\<lparr>int_urb_active := False, trace := [DevErr (- 71)]\<rparr>
   \<and> deliver 0 0x5A 0 probed = probed\<lparr>switches := 0x5A, trace := [WakeUp 0x5A, SubmitInt]\<rparr>
   \<and> \<not> int_urb_active (deliver (- 71) 0x5A 0 probed)
   \<and> int_urb_active (snd (osrfx2_resume 0 0 (deliver (- 71) 0x5A 0 probed)))"
proof -
  have h: "(- 71 :: int) \<noteq> 0" by simp
  have e: "deliver (- 71) 0x5A 0 probed = probed\<lparr>int_urb_active := False, trace := [DevErr (- 71)]\<rparr>"
    "deliver 0 0x5A 0 probed = probed\<lparr>switches := 0x5A, trace := [WakeUp 0x5A, SubmitInt]\<rparr>"
    by (simp_all add: deliver_def interrupt_handler_def usb_defs Let_def probed_def)
  from interrupt_delivery_order [of "0x5A" 0 probed "- 71"] h
  have "\<not> int_urb_active (deliver (- 71) 0x5A 0 probed)" by blast
  moreover from interrupt_delivery_order [of "0x5A" 0 "deliver (- 71) 0x5A 0 probed" "- 71"]
  have "int_urb_active (snd (osrfx2_resume 0 0 (deliver (- 71) 0x5A 0 probed)))" by blast
  ultimately show ?thesis using e by simp
qed

end
